theory Spec2Isabelle
  imports Main
begin

section \<open>Values, backend modules and the state of the logging facade\<close>

text \<open>
  The model follows \<^verbatim>\<open>src/Logging/ThugLogging.py\<close>, class \<^verbatim>\<open>ThugLogging\<close>.
  Arguments that the class only hands on are values of \<open>pyval\<close>; arguments that it
  formats with \<^verbatim>\<open>%s\<close> are \<open>string option\<close>, with \<open>None\<close> for Python's \<^verbatim>\<open>None\<close>.
  A sample is a dictionary from field names to strings, kept as an association list.
\<close>

datatype pyval = PNone | PStr string | PInt int | PDict "(string \<times> string) list"

type_synonym sample = "(string \<times> string) list"

definition opt_str :: "string option \<Rightarrow> pyval" where
  "opt_str u = (case u of None \<Rightarrow> PNone | Some s \<Rightarrow> PStr s)"

text \<open>\<^verbatim>\<open>"%s" % x\<close> for a string or \<^verbatim>\<open>None\<close>.\<close>

definition py_str :: "string option \<Rightarrow> string" where
  "py_str u = (case u of None \<Rightarrow> ''None'' | Some s \<Rightarrow> s)"

text \<open>\<^verbatim>\<open>"%s" % n\<close> for an integer: its decimal digits.\<close>

function str_nat :: "nat \<Rightarrow> string" where
  "str_nat n = (if n < 10 then [''0123456789'' ! n]
                else str_nat (n div 10) @ [''0123456789'' ! (n mod 10)])"
  by pat_completeness auto
termination
  by (relation "measure id") auto

declare str_nat.simps [simp del]

definition str_int :: "int \<Rightarrow> string" where
  "str_int i = (if i < 0 then CHR ''-'' # str_nat (nat (- i)) else str_nat (nat i))"

text \<open>
  A backend module is known by its configuration name and by the names of its attributes
  whose value is true in Python's sense: \<^verbatim>\<open>getattr(module, name, None)\<close> followed by
  \<^verbatim>\<open>if m:\<close> keeps exactly those. A handler is the bound method of a module, the pair of
  the module's name and the attribute's name.
\<close>

record backend =
  mname :: string
  mattrs :: "string list"

type_synonym handler = "string \<times> string"

definition getattr :: "backend \<Rightarrow> string \<Rightarrow> handler option" where
  "getattr m name = (if name \<in> set (mattrs m) then Some (mname m, name) else None)"

text \<open>
  What the facade does to the world outside is recorded in a trace, in the order of the
  calls: a call of a backend handler, a line of the process warning log, a call of the URL
  classifier, of the certificate fetcher, of the sample builder, of the scan service
  (\<^verbatim>\<open>VirusTotal.analyze\<close>), of the dynamic-execution service (\<^verbatim>\<open>HoneyAgent.analyze\<close>) and
  of the sample classifier. Handlers and collaborators are taken to return normally.
\<close>

datatype event =
    Handler string string "pyval list"
  | LogWarning pyval
  | UrlClassify pyval
  | FetchCert pyval
  | BuildSample pyval pyval
  | VTAnalyze pyval sample pyval
  | HAAnalyze pyval sample pyval pyval
  | SampleClassify pyval pyval

text \<open>
  The file system is outside the repository. The model keeps the existing directories,
  the files with their contents, and the paths on which the system refuses to create or
  open anything (\<open>EACCES\<close>). Paths are plain strings; a directory is created as one
  entry.
\<close>

datatype errno = EEXIST | EACCES | ENOENT | EISDIR

record filesys =
  dirs :: "string list"
  files :: "(string \<times> string) list"
  denied :: "string list"

text \<open>\<^verbatim>\<open>os.makedirs(d)\<close>: the new file system, or the \<^verbatim>\<open>errno\<close> of the \<^verbatim>\<open>OSError\<close>.\<close>

definition fs_makedirs :: "filesys \<Rightarrow> string \<Rightarrow> errno + filesys" where
  "fs_makedirs f d =
     (if d = [] then Inl ENOENT
      else if d \<in> set (dirs f) \<or> d \<in> fst ` set (files f) then Inl EEXIST
      else if d \<in> set (denied f) then Inl EACCES
      else Inr (f\<lparr>dirs := dirs f @ [d]\<rparr>))"

text \<open>\<^verbatim>\<open>with open(p, 'wb') as fd: fd.write(c)\<close>.\<close>

definition fs_write :: "filesys \<Rightarrow> string \<Rightarrow> string \<Rightarrow> errno + filesys" where
  "fs_write f p c =
     (if p \<in> set (dirs f) then Inl EISDIR
      else if p \<in> set (denied f) then Inl EACCES
      else Inr (f\<lparr>files := (p, c) # filter (\<lambda>e. fst e \<noteq> p) (files f)\<rparr>))"

text \<open>\<^verbatim>\<open>os.path.join(a, b)\<close> of \<^verbatim>\<open>posixpath\<close>, for two components.\<close>

definition path_join :: "string \<Rightarrow> string \<Rightarrow> string" where
  "path_join a b =
     (if b \<noteq> [] \<and> hd b = CHR ''/'' then b
      else if a = [] \<or> last a = CHR ''/'' then a @ b
      else a @ ''/'' @ b)"

text \<open>
  The state: \<^verbatim>\<open>self.modules.values()\<close> in the order of iteration (the order of insertion
  by \<^verbatim>\<open>__init_config\<close>), \<^verbatim>\<open>self.methods_cache\<close>, \<^verbatim>\<open>self.baseDir\<close>, the option
  \<^verbatim>\<open>log.ThugOpts.file_logging\<close>, the file system and the trace.
\<close>

record thug =
  modules :: "backend list"
  methods_cache :: "(string \<times> handler list) list"
  baseDir :: "string option"
  file_logging :: bool
  fs :: filesys
  trace :: "event list"

datatype exn = KeyError string | OSError errno

section \<open>Resolving and calling handlers\<close>

definition scan_modules :: "backend list \<Rightarrow> string \<Rightarrow> handler list" where
  "scan_modules ms name =
     foldl (\<lambda>methods module. case getattr module name of
                                None \<Rightarrow> methods
                              | Some m \<Rightarrow> methods @ [m]) [] ms"

definition resolve_method :: "string \<Rightarrow> thug \<Rightarrow> handler list \<times> thug" where
  "resolve_method name s =
     (case map_of (methods_cache s) name of
        Some methods \<Rightarrow> (methods, s)
      | None \<Rightarrow>
          (let methods = scan_modules (modules s) name
           in (methods, s\<lparr>methods_cache := methods_cache s @ [(name, methods)]\<rparr>)))"

definition emit :: "event \<Rightarrow> thug \<Rightarrow> thug" where
  "emit e s = s\<lparr>trace := trace s @ [e]\<rparr>"

definition invoke :: "pyval list \<Rightarrow> thug \<Rightarrow> handler \<Rightarrow> thug" where
  "invoke args s m = emit (Handler (fst m) (snd m) args) s"

text \<open>\<^verbatim>\<open>for m in self.resolve_method(name): m(args)\<close>.\<close>

definition broadcast :: "string \<Rightarrow> pyval list \<Rightarrow> thug \<Rightarrow> thug" where
  "broadcast name args s =
     (case resolve_method name s of (methods, s1) \<Rightarrow> foldl (invoke args) s1 methods)"

section \<open>The event operations\<close>

definition set_url :: "pyval \<Rightarrow> thug \<Rightarrow> thug" where
  "set_url url = broadcast ''set_url'' [url]"

definition add_behavior_warn :: "string option \<Rightarrow> pyval \<Rightarrow> pyval \<Rightarrow> thug \<Rightarrow> thug" where
  "add_behavior_warn description cve method s =
     emit (LogWarning (opt_str description))
       (broadcast ''add_behavior_warn'' [opt_str description, cve, method] s)"

definition eval_min_length_logging :: nat where
  "eval_min_length_logging = 4"

definition check_snippet :: "string \<Rightarrow> bool" where
  "check_snippet s = (length s < eval_min_length_logging)"

definition add_code_snippet ::
  "string \<Rightarrow> pyval \<Rightarrow> pyval \<Rightarrow> pyval \<Rightarrow> bool \<Rightarrow> thug \<Rightarrow> thug" where
  "add_code_snippet snippet language relationship method check s =
     (if check \<and> check_snippet snippet then s
      else broadcast ''add_code_snippet'' [PStr snippet, language, relationship, method] s)"

text \<open>
  \<^verbatim>\<open>__log_file\<close>: \<^verbatim>\<open>sample['type']\<close> and \<^verbatim>\<open>sample['md5']\<close> raise \<^verbatim>\<open>KeyError\<close> on a
  sample without the key, after the calls made before them.
\<close>

definition ThugLogging_log_file ::
  "sample \<Rightarrow> pyval \<Rightarrow> pyval \<Rightarrow> pyval \<Rightarrow> thug \<Rightarrow> (exn + sample) \<times> thug" where
  "ThugLogging_log_file smp data url params s =
     (let s1 = broadcast ''log_file'' [PDict smp, url, params] s;
          s2 = emit (VTAnalyze data smp (opt_str (baseDir s1))) s1
      in case map_of smp ''type'' of
           None \<Rightarrow> (Inl (KeyError ''type''), s2)
         | Some t \<Rightarrow>
             (let s3 = (if t \<in> set [''JAR'']
                        then emit (HAAnalyze data smp (opt_str (baseDir s2)) params) s2
                        else s2)
              in case map_of smp ''md5'' of
                   None \<Rightarrow> (Inl (KeyError ''md5''), s3)
                 | Some md5 \<Rightarrow> (Inr smp, emit (SampleClassify data (PStr md5)) s3)))"

text \<open>
  \<^verbatim>\<open>log_file\<close>. The sample builder \<^verbatim>\<open>self.build_sample\<close> belongs to the base class
  \<^verbatim>\<open>SampleLogging\<close>, which is not in this file: it is the parameter \<open>build_sample\<close>.
\<close>

definition log_file ::
  "(pyval \<Rightarrow> pyval \<Rightarrow> sample option) \<Rightarrow> pyval \<Rightarrow> pyval \<Rightarrow> pyval \<Rightarrow> thug
     \<Rightarrow> (exn + sample option) \<times> thug" where
  "log_file build_sample data url params s =
     (let s0 = emit (BuildSample data url) s
      in case build_sample data url of
           None \<Rightarrow> (Inr None, s0)
         | Some smp \<Rightarrow>
             (case ThugLogging_log_file smp data url params s0 of
                (Inl e, s1) \<Rightarrow> (Inl e, s1)
              | (Inr r, s1) \<Rightarrow> (Inr (Some r), s1)))"

definition log_event :: "thug \<Rightarrow> thug" where
  "log_event s =
     (let s1 = broadcast ''export'' [opt_str (baseDir s)] s;
          s2 = broadcast ''log_event'' [opt_str (baseDir s1)] s1
      in if file_logging s2
         then emit (LogWarning (PStr (''Thug analysis logs saved at '' @ py_str (baseDir s2)))) s2
         else s2)"

definition log_connection :: "pyval \<Rightarrow> pyval \<Rightarrow> pyval \<Rightarrow> pyval \<Rightarrow> thug \<Rightarrow> thug" where
  "log_connection source destination method flags =
     broadcast ''log_connection'' [source, destination, method, flags]"

definition log_location :: "pyval \<Rightarrow> pyval \<Rightarrow> pyval \<Rightarrow> thug \<Rightarrow> thug" where
  "log_location url data flags = broadcast ''log_location'' [url, data, flags]"

definition log_exploit_event ::
  "pyval \<Rightarrow> string option \<Rightarrow> string option \<Rightarrow> pyval \<Rightarrow> pyval \<Rightarrow> bool \<Rightarrow> thug \<Rightarrow> thug" where
  "log_exploit_event url module description cve data forward s =
     (let s1 = (if forward
                then add_behavior_warn
                       (Some (''['' @ py_str module @ ''] '' @ py_str description))
                       cve (PStr ''Dynamic Analysis'') s
                else s)
      in broadcast ''log_exploit_event''
           [url, opt_str module, opt_str description, cve, data] s1)"

definition log_warning :: "pyval \<Rightarrow> thug \<Rightarrow> thug" where
  "log_warning data s = broadcast ''log_warning'' [data] (emit (LogWarning data) s)"

section \<open>Redirect chains\<close>

text \<open>
  A hop of \<^verbatim>\<open>response.history\<close> has a URL (possibly \<^verbatim>\<open>None\<close>), a status code and a
  header map, of which only \<^verbatim>\<open>headers.get('location', None)\<close> is read. The header map of
  the HTTP library finds a header whatever the case of its name; the model keeps the names
  in lower case.

  The argument of \<^verbatim>\<open>log_redirect\<close> is a \<open>response option\<close>, with \<open>None\<close> for Python's
  \<^verbatim>\<open>None\<close>. A response object has a truth value of its own, which the test
  \<^verbatim>\<open>if not response\<close> reads: \<open>truth_value\<close>. The class of the object decides it (a
  \<^verbatim>\<open>requests.Response\<close> is true when its status code is below 400), so a response with
  hops and a URL may well be false.
\<close>

record hop =
  hop_url :: "string option"
  status_code :: int
  headers :: "(string \<times> string) list"

record response =
  truth_value :: bool
  url :: "string option"
  history :: "hop list"

text \<open>One run of \<^verbatim>\<open>for h in reversed(response.history): final = h.url\<close>.\<close>

definition scan_pass :: "hop list \<Rightarrow> string option \<Rightarrow> string option" where
  "scan_pass hist final = foldl (\<lambda>_ h. hop_url h) final (rev hist)"

text \<open>
  \<^verbatim>\<open>while final is None: <scan_pass>\<close>. The loop need not end: the result \<open>None\<close> is
  the loop that never returns, \<open>Some final\<close> is the value of \<^verbatim>\<open>final\<close> after it.
\<close>

partial_function (option) final_loop :: "hop list \<Rightarrow> string option \<Rightarrow> string option option" where
  "final_loop hist final =
     (if final = None then final_loop hist (scan_pass hist final) else Some final)"

definition redirect_warning :: "hop \<Rightarrow> string" where
  "redirect_warning h =
     ''[HTTP Redirection (Status: '' @ str_int (status_code h) @ '')] Content-Location: ''
       @ py_str (hop_url h) @ '' --> Location: '' @ py_str (map_of (headers h) ''location'')"

text \<open>The body of \<^verbatim>\<open>for h in response.history\<close>.\<close>

definition log_hop :: "thug \<Rightarrow> hop \<Rightarrow> thug" where
  "log_hop s h =
     (let location = map_of (headers h) ''location'';
          s1 = add_behavior_warn (Some (redirect_warning h)) PNone (PStr ''Dynamic Analysis'') s;
          s2 = log_connection (opt_str (hop_url h)) (opt_str location) (PStr ''http-redirect'')
                 (PDict []) s1;
          s3 = emit (UrlClassify (opt_str (hop_url h))) s2
      in emit (FetchCert (opt_str (hop_url h))) s3)"

text \<open>Python's truth value of a URL: neither \<^verbatim>\<open>None\<close> nor the empty string.\<close>

definition truthy :: "string option \<Rightarrow> bool" where
  "truthy u = (case u of None \<Rightarrow> False | Some v \<Rightarrow> v \<noteq> [])"

text \<open>
  \<^verbatim>\<open>log_redirect\<close>: \<open>None\<close> when the call never returns, otherwise the returned value and
  the state.
\<close>

definition log_redirect :: "response option \<Rightarrow> thug \<Rightarrow> (string option \<times> thug) option" where
  "log_redirect resp s =
     (case resp of
        None \<Rightarrow> Some (None, s)
      | Some r \<Rightarrow>
          if \<not> truth_value r then Some (None, s)
          else if history r = [] then
            (if truthy (url r)
             then Some (None, emit (FetchCert (opt_str (url r)))
                                (emit (UrlClassify (opt_str (url r))) s))
             else Some (None, s))
          else
            (case final_loop (history r) (url r) of
               None \<Rightarrow> None
             | Some final \<Rightarrow>
                 (let s1 = foldl log_hop s (history r);
                      s2 = emit (UrlClassify (opt_str final)) s1
                  in Some (final, emit (FetchCert (opt_str final)) s2))))"

definition log_href_redirect :: "string option \<Rightarrow> string option \<Rightarrow> thug \<Rightarrow> thug" where
  "log_href_redirect referer u s =
     log_connection (opt_str referer) (opt_str u) (PStr ''href'') (PDict [])
       (add_behavior_warn
          (Some (''[HREF Redirection (document.location)] Content-Location: '' @ py_str referer
                   @ '' --> Location: '' @ py_str u))
          PNone (PStr ''Dynamic Analysis'') s)"

definition log_certificate :: "pyval \<Rightarrow> string option \<Rightarrow> thug \<Rightarrow> thug" where
  "log_certificate u certificate s =
     broadcast ''log_certificate'' [u, opt_str certificate]
       (add_behavior_warn (Some (''[Certificate]'' @ [CHR 0x0A] @ '' '' @ py_str certificate))
          PNone (PStr ''Dynamic Analysis'') s)"

section \<open>Stored content and the analysis modules\<close>

text \<open>
  \<^verbatim>\<open>store_content\<close>: the returned path, \<open>None\<close> for the bare \<^verbatim>\<open>return\<close>, or the
  \<^verbatim>\<open>OSError\<close> that leaves the method. A directory made before a failing write stays.
\<close>

definition store_content ::
  "string \<Rightarrow> string \<Rightarrow> string \<Rightarrow> thug \<Rightarrow> (exn + string option) \<times> thug" where
  "store_content dirname filename content s =
     (if \<not> file_logging s then (Inr None, s)
      else
        (let made = (case fs_makedirs (fs s) dirname of
                       Inr f1 \<Rightarrow> Inr f1
                     | Inl e \<Rightarrow> if e = EEXIST then Inr (fs s) else Inl e)
         in case made of
              Inl e \<Rightarrow> (Inl (OSError e), s)
            | Inr f1 \<Rightarrow>
                (let fname = path_join dirname filename
                 in case fs_write f1 fname content of
                      Inl e \<Rightarrow> (Inl (OSError e), s\<lparr>fs := f1\<rparr>)
                    | Inr f2 \<Rightarrow> (Inr (Some fname), s\<lparr>fs := f2\<rparr>))))"

definition log_analysis_module ::
  "string \<Rightarrow> sample \<Rightarrow> string \<Rightarrow> string \<Rightarrow> string \<Rightarrow> thug \<Rightarrow> (exn + unit) \<times> thug" where
  "log_analysis_module dirname smp report module format s =
     (case map_of smp ''md5'' of
        None \<Rightarrow> (Inl (KeyError ''md5''), s)
      | Some md5 \<Rightarrow>
          (let filename = md5 @ ''.'' @ format
           in case store_content dirname filename report s of
                (Inl e, s1) \<Rightarrow> (Inl e, s1)
              | (Inr _, s1) \<Rightarrow>
                  (Inr (), broadcast (''log_'' @ module) [PDict smp, PStr report] s1)))"

definition log_virustotal :: "string \<Rightarrow> sample \<Rightarrow> string \<Rightarrow> thug \<Rightarrow> (exn + unit) \<times> thug" where
  "log_virustotal dirname smp report =
     log_analysis_module dirname smp report ''virustotal'' ''json''"

definition log_honeyagent :: "string \<Rightarrow> sample \<Rightarrow> string \<Rightarrow> thug \<Rightarrow> (exn + unit) \<times> thug" where
  "log_honeyagent dirname smp report =
     log_analysis_module dirname smp report ''honeyagent'' ''json''"

text \<open>\<^verbatim>\<open>sample.pop("raw", None)\<close>: the value taken and the dictionary left.\<close>

definition dict_pop :: "string \<Rightarrow> sample \<Rightarrow> string option \<times> sample" where
  "dict_pop k d = (map_of d k, filter (\<lambda>e. fst e \<noteq> k) d)"

text \<open>
  \<^verbatim>\<open>log_androguard\<close> changes the dictionary of its caller: the second component of the
  result is that dictionary after the call, whether the call returns or raises.
\<close>

definition log_androguard ::
  "string \<Rightarrow> sample \<Rightarrow> string \<Rightarrow> thug \<Rightarrow> (exn + unit) \<times> sample \<times> thug" where
  "log_androguard dirname smp report s =
     (case dict_pop ''raw'' smp of
        (raw, smp1) \<Rightarrow>
          (case ThugLogging_log_file smp1 (opt_str raw) PNone PNone s of
             (Inl e, s1) \<Rightarrow> (Inl e, smp1, s1)
           | (Inr _, s1) \<Rightarrow>
               (case log_analysis_module dirname smp1 report ''androguard'' ''txt'' s1 of
                  (r, s2) \<Rightarrow> (r, smp1, s2))))"

definition log_peepdf :: "string \<Rightarrow> sample \<Rightarrow> string \<Rightarrow> thug \<Rightarrow> (exn + unit) \<times> thug" where
  "log_peepdf dirname smp report =
     log_analysis_module dirname smp report ''peepdf'' ''xml''"

section \<open>Sessions\<close>

text \<open>
  A session starts in the state left by \<^verbatim>\<open>__init__\<close>, where \<^verbatim>\<open>methods_cache\<close> is the
  empty dictionary, and goes on by calls of the methods of the class. A call that raises
  returns control to its caller with the state it reached; a call that never returns has
  no next state.
\<close>

datatype op =
    OpResolveMethod string
  | OpSetUrl pyval
  | OpAddBehaviorWarn "string option" pyval pyval
  | OpAddCodeSnippet string pyval pyval pyval bool
  | OpLogFile "pyval \<Rightarrow> pyval \<Rightarrow> sample option" pyval pyval pyval
  | OpLogEvent
  | OpLogConnection pyval pyval pyval pyval
  | OpLogLocation pyval pyval pyval
  | OpLogExploitEvent pyval "string option" "string option" pyval pyval bool
  | OpLogWarning pyval
  | OpLogRedirect "response option"
  | OpLogHrefRedirect "string option" "string option"
  | OpLogCertificate pyval "string option"
  | OpLogAnalysisModule string sample string string string
  | OpLogVirustotal string sample string
  | OpLogHoneyagent string sample string
  | OpLogAndroguard string sample string
  | OpLogPeepdf string sample string
  | OpStoreContent string string string

fun run :: "op \<Rightarrow> thug \<Rightarrow> thug option" where
  "run (OpResolveMethod name) s = Some (snd (resolve_method name s))"
| "run (OpSetUrl u) s = Some (set_url u s)"
| "run (OpAddBehaviorWarn d c m) s = Some (add_behavior_warn d c m s)"
| "run (OpAddCodeSnippet sn l r m c) s = Some (add_code_snippet sn l r m c s)"
| "run (OpLogFile b d u p) s = Some (snd (log_file b d u p s))"
| "run OpLogEvent s = Some (log_event s)"
| "run (OpLogConnection a b m f) s = Some (log_connection a b m f s)"
| "run (OpLogLocation u d f) s = Some (log_location u d f s)"
| "run (OpLogExploitEvent u m d c x f) s = Some (log_exploit_event u m d c x f s)"
| "run (OpLogWarning d) s = Some (log_warning d s)"
| "run (OpLogRedirect r) s = map_option snd (log_redirect r s)"
| "run (OpLogHrefRedirect a b) s = Some (log_href_redirect a b s)"
| "run (OpLogCertificate u c) s = Some (log_certificate u c s)"
| "run (OpLogAnalysisModule d x r m f) s = Some (snd (log_analysis_module d x r m f s))"
| "run (OpLogVirustotal d x r) s = Some (snd (log_virustotal d x r s))"
| "run (OpLogHoneyagent d x r) s = Some (snd (log_honeyagent d x r s))"
| "run (OpLogAndroguard d x r) s = Some (snd (snd (log_androguard d x r s)))"
| "run (OpLogPeepdf d x r) s = Some (snd (log_peepdf d x r s))"
| "run (OpStoreContent d f c) s = Some (snd (store_content d f c s))"

inductive session :: "thug \<Rightarrow> thug \<Rightarrow> bool" where
  start: "methods_cache s0 = [] \<Longrightarrow> session s0 s0"
| step: "session s0 s \<Longrightarrow> run c s = Some s' \<Longrightarrow> session s0 s'"

section \<open>The vocabulary of the properties\<close>

text \<open>
  In the words of the specification: the handlers of an event name are the registered
  modules that implement the name, in the order of registration.
\<close>

definition implementing :: "backend list \<Rightarrow> string \<Rightarrow> handler list" where
  "implementing ms name =
     map (\<lambda>m. (mname m, name)) (filter (\<lambda>m. name \<in> set (mattrs m)) ms)"

text \<open>What \<^verbatim>\<open>resolve_method\<close> returns in a state, and the handler calls of one broadcast.\<close>

definition handlers :: "thug \<Rightarrow> string \<Rightarrow> handler list" where
  "handlers s name = fst (resolve_method name s)"

definition calls :: "thug \<Rightarrow> string \<Rightarrow> pyval list \<Rightarrow> event list" where
  "calls s name args = map (\<lambda>m. Handler (fst m) (snd m) args) (handlers s name)"

text \<open>
  The events of one hop: the behavior warning (to its handlers, then to the warning log),
  the connection edge, the classification of the hop's URL and the fetch of its
  certificate.
\<close>

definition hop_events :: "thug \<Rightarrow> hop \<Rightarrow> event list" where
  "hop_events s h =
     calls s ''add_behavior_warn'' [PStr (redirect_warning h), PNone, PStr ''Dynamic Analysis'']
     @ [LogWarning (PStr (redirect_warning h))]
     @ calls s ''log_connection''
         [opt_str (hop_url h), opt_str (map_of (headers h) ''location''),
          PStr ''http-redirect'', PDict []]
     @ [UrlClassify (opt_str (hop_url h)), FetchCert (opt_str (hop_url h))]"

definition is_warning :: "event \<Rightarrow> bool" where
  "is_warning e = (case e of LogWarning _ \<Rightarrow> True | _ \<Rightarrow> False)"

definition is_classify :: "event \<Rightarrow> bool" where
  "is_classify e = (case e of UrlClassify _ \<Rightarrow> True | _ \<Rightarrow> False)"

definition is_fetch :: "event \<Rightarrow> bool" where
  "is_fetch e = (case e of FetchCert _ \<Rightarrow> True | _ \<Rightarrow> False)"

definition is_build :: "event \<Rightarrow> bool" where
  "is_build e = (case e of BuildSample _ _ \<Rightarrow> True | _ \<Rightarrow> False)"

definition is_call :: "string \<Rightarrow> event \<Rightarrow> bool" where
  "is_call name e = (case e of Handler _ n _ \<Rightarrow> n = name | _ \<Rightarrow> False)"

text \<open>What no method changes: the modules, and so what \<^verbatim>\<open>resolve_method\<close> returns.\<close>

definition frame :: "thug \<Rightarrow> thug \<Rightarrow> bool" where
  "frame s s' = (modules s' = modules s \<and> handlers s' = handlers s)"

section \<open>Example data\<close>

definition example_modules :: "backend list" where
  "example_modules =
     [\<lparr>mname = ''JSON'',
       mattrs = [''set_url'', ''add_behavior_warn'', ''add_code_snippet'', ''log_file'',
                 ''log_connection'', ''log_androguard'']\<rparr>,
      \<lparr>mname = ''MAEC11'', mattrs = [''add_behavior_warn'', ''add_code_snippet'']\<rparr>,
      \<lparr>mname = ''MongoDB'', mattrs = [''log_connection'', ''add_code_snippet'']\<rparr>]"

definition example_thug :: thug where
  "example_thug =
     \<lparr>modules = example_modules, methods_cache = [], baseDir = Some ''/tmp/thug'',
      file_logging = True, fs = \<lparr>dirs = [], files = [], denied = [''/proc'']\<rparr>, trace = []\<rparr>"

definition hop_a :: hop where
  "hop_a = \<lparr>hop_url = Some ''http://a/'', status_code = 301,
            headers = [(''location'', ''http://b/'')]\<rparr>"

definition hop_b :: hop where
  "hop_b = \<lparr>hop_url = Some ''http://b/'', status_code = 302,
            headers = [(''location'', ''http://c/'')]\<rparr>"

definition hop_none :: hop where
  "hop_none = \<lparr>hop_url = None, status_code = 301, headers = [(''location'', ''http://b/'')]\<rparr>"

definition example_sample :: sample where
  "example_sample = [(''type'', ''APK''), (''md5'', ''0f343b0931126a20f133d67c2b018a3b''),
                     (''raw'', ''PK'')]"

definition stored_once :: thug where
  "stored_once = example_thug\<lparr>fs := \<lparr>dirs = [''/tmp/thug/analysis''],
     files = [(''/tmp/thug/analysis/report.json'', ''{}'')], denied = [''/proc'']\<rparr>\<rparr>"

definition stored_twice :: thug where
  "stored_twice = example_thug\<lparr>fs := \<lparr>dirs = [''/tmp/thug/analysis''],
     files = [(''/tmp/thug/analysis/report.json'', ''[]'')], denied = [''/proc'']\<rparr>\<rparr>"

definition logging_off :: thug where
  "logging_off = example_thug\<lparr>file_logging := False\<rparr>"

section \<open>Resolution and broadcast\<close>

lemma scan_modules_acc:
  "foldl (\<lambda>methods module. case getattr module name of None \<Rightarrow> methods | Some m \<Rightarrow> methods @ [m]) acc ms
     = acc @ implementing ms name"
  by (induction ms arbitrary: acc) (simp_all add: implementing_def getattr_def)

lemma scan_modules_implementing: "scan_modules ms name = implementing ms name"
  by (simp add: scan_modules_def scan_modules_acc)

lemma foldl_invoke:
  "foldl (invoke args) s ms = s\<lparr>trace := trace s @ map (\<lambda>m. Handler (fst m) (snd m) args) ms\<rparr>"
  by (induction ms arbitrary: s) (simp_all add: invoke_def emit_def)

lemma handlers_resolved [simp]: "handlers (snd (resolve_method name s)) = handlers s"
  by (rule ext) (auto simp: handlers_def resolve_method_def Let_def map_add_def split: option.splits)

lemma modules_resolved [simp]: "modules (snd (resolve_method name s)) = modules s"
  by (simp add: resolve_method_def Let_def split: option.splits)

lemma handlers_trace_update [simp]: "handlers (s\<lparr>trace := t\<rparr>) = handlers s"
  by (rule ext) (simp add: handlers_def resolve_method_def Let_def split: option.splits)

lemma handlers_fs_update [simp]: "handlers (s\<lparr>fs := f\<rparr>) = handlers s"
  by (rule ext) (simp add: handlers_def resolve_method_def Let_def split: option.splits)

lemma broadcast_eq:
  "broadcast name args s = (snd (resolve_method name s))\<lparr>trace := trace s @ calls s name args\<rparr>"
  by (simp add: broadcast_def calls_def handlers_def foldl_invoke resolve_method_def Let_def
      split: option.splits)

lemma trace_broadcast [simp]: "trace (broadcast name args s) = trace s @ calls s name args"
  by (simp add: broadcast_eq)

lemma handlers_broadcast [simp]: "handlers (broadcast name args s) = handlers s"
  by (simp add: broadcast_eq)

lemma modules_broadcast [simp]: "modules (broadcast name args s) = modules s"
  by (simp add: broadcast_eq)

lemma baseDir_broadcast [simp]: "baseDir (broadcast name args s) = baseDir s"
  by (simp add: broadcast_eq resolve_method_def Let_def split: option.splits)

lemma file_logging_broadcast [simp]: "file_logging (broadcast name args s) = file_logging s"
  by (simp add: broadcast_eq resolve_method_def Let_def split: option.splits)

lemma fs_broadcast [simp]: "fs (broadcast name args s) = fs s"
  by (simp add: broadcast_eq resolve_method_def Let_def split: option.splits)

lemma handlers_emit [simp]: "handlers (emit e s) = handlers s"
  by (simp add: emit_def)

lemma modules_emit [simp]: "modules (emit e s) = modules s"
  by (simp add: emit_def)

lemma trace_emit [simp]: "trace (emit e s) = trace s @ [e]"
  by (simp add: emit_def)

lemma baseDir_emit [simp]: "baseDir (emit e s) = baseDir s"
  by (simp add: emit_def)

lemma file_logging_emit [simp]: "file_logging (emit e s) = file_logging s"
  by (simp add: emit_def)

lemma fs_emit [simp]: "fs (emit e s) = fs s"
  by (simp add: emit_def)

lemma calls_handlers: "handlers s' = handlers s \<Longrightarrow> calls s' = calls s"
  by (rule ext)+ (simp add: calls_def)

lemma calls_broadcast [simp]: "calls (broadcast name args s) = calls s"
  by (rule calls_handlers) simp

lemma calls_emit [simp]: "calls (emit e s) = calls s"
  by (rule calls_handlers) simp

section \<open>What every operation leaves alone\<close>

lemma frame_refl [simp]: "frame s s"
  by (simp add: frame_def)

lemma frame_trans: "frame s s1 \<Longrightarrow> frame s1 s2 \<Longrightarrow> frame s s2"
  by (simp add: frame_def)

lemma frame_broadcast [simp]: "frame s (broadcast name args s)"
  by (simp add: frame_def)

lemma frame_emit [simp]: "frame s (emit e s)"
  by (simp add: frame_def)

lemma frame_broadcast_after: "frame s s1 \<Longrightarrow> frame s (broadcast name args s1)"
  by (simp add: frame_def)

lemma frame_emit_after: "frame s s1 \<Longrightarrow> frame s (emit e s1)"
  by (simp add: frame_def)

lemma frame_fs_after: "frame s s1 \<Longrightarrow> frame s (s1\<lparr>fs := f\<rparr>)"
  by (simp add: frame_def)

lemmas frame_steps = frame_broadcast_after frame_emit_after frame_fs_after

lemma frame_add_behavior_warn: "frame s s1 \<Longrightarrow> frame s (add_behavior_warn d c m s1)"
  by (simp add: add_behavior_warn_def frame_steps)

lemma frame_log_connection: "frame s s1 \<Longrightarrow> frame s (log_connection a b m f s1)"
  by (simp add: log_connection_def frame_steps)

lemma frame_log_hop: "frame s s1 \<Longrightarrow> frame s (log_hop s1 h)"
  by (simp add: log_hop_def Let_def frame_steps frame_add_behavior_warn frame_log_connection)

lemma frame_foldl_log_hop: "frame s s1 \<Longrightarrow> frame s (foldl log_hop s1 hs)"
  by (induction hs arbitrary: s1) (simp_all add: frame_log_hop)

lemma frame_log_redirect: "log_redirect r s = Some (v, s') \<Longrightarrow> frame s s'"
  by (auto simp: log_redirect_def Let_def frame_steps frame_foldl_log_hop
      split: option.splits if_splits)

lemma frame_ThugLogging_log_file:
  "frame s s1 \<Longrightarrow> frame s (snd (ThugLogging_log_file smp d u p s1))"
  by (simp add: ThugLogging_log_file_def Let_def frame_steps split: option.splits)

lemma frame_log_file: "frame s (snd (log_file b d u p s))"
proof (cases "b d u")
  case None
  then show ?thesis
    by (simp add: log_file_def Let_def)
next
  case (Some smp)
  obtain o1 s1 where l: "ThugLogging_log_file smp d u p (emit (BuildSample d u) s) = (o1, s1)"
    by (cases "ThugLogging_log_file smp d u p (emit (BuildSample d u) s)")
  have "frame s (snd (ThugLogging_log_file smp d u p (emit (BuildSample d u) s)))"
    by (rule frame_ThugLogging_log_file) simp
  with l have "frame s s1"
    by simp
  with Some l show ?thesis
    by (cases o1) (simp_all add: log_file_def Let_def)
qed

lemma frame_store_content: "frame s s1 \<Longrightarrow> frame s (snd (store_content d f c s1))"
  by (simp add: store_content_def Let_def frame_steps split: sum.splits)

lemma frame_log_analysis_module:
  assumes "frame s s1"
  shows "frame s (snd (log_analysis_module d x r m f s1))"
proof (cases "map_of x ''md5''")
  case None
  with assms show ?thesis
    by (simp add: log_analysis_module_def)
next
  case (Some md5)
  obtain o1 s2 where st: "store_content d (md5 @ ''.'' @ f) r s1 = (o1, s2)"
    by (cases "store_content d (md5 @ ''.'' @ f) r s1")
  have "frame s (snd (store_content d (md5 @ ''.'' @ f) r s1))"
    using assms by (rule frame_store_content)
  with st have "frame s s2"
    by simp
  with Some st show ?thesis
    by (cases o1) (simp_all add: log_analysis_module_def Let_def frame_steps)
qed

lemma frame_log_androguard: "frame s (snd (snd (log_androguard d x r s)))"
proof -
  obtain raw x1 where p: "dict_pop ''raw'' x = (raw, x1)"
    by (cases "dict_pop ''raw'' x")
  obtain o1 s1 where l: "ThugLogging_log_file x1 (opt_str raw) PNone PNone s = (o1, s1)"
    by (cases "ThugLogging_log_file x1 (opt_str raw) PNone PNone s")
  have "frame s (snd (ThugLogging_log_file x1 (opt_str raw) PNone PNone s))"
    by (rule frame_ThugLogging_log_file) simp
  with l have f1: "frame s s1"
    by simp
  obtain o2 s2 where a: "log_analysis_module d x1 r ''androguard'' ''txt'' s1 = (o2, s2)"
    by (cases "log_analysis_module d x1 r ''androguard'' ''txt'' s1")
  have "frame s (snd (log_analysis_module d x1 r ''androguard'' ''txt'' s1))"
    using f1 by (rule frame_log_analysis_module)
  with a have f2: "frame s s2"
    by simp
  show ?thesis
    using f1 f2 by (cases o1) (simp_all add: log_androguard_def p l a)
qed

lemma frame_run: "run c s = Some s' \<Longrightarrow> frame s s'"
proof (cases c)
  case (OpResolveMethod n)
  assume "run c s = Some s'"
  with OpResolveMethod show ?thesis by (auto simp: frame_def)
next
  case (OpLogRedirect r)
  assume "run c s = Some s'"
  with OpLogRedirect show ?thesis by (auto dest: frame_log_redirect)
next
  case (OpLogFile b d u p)
  assume "run c s = Some s'"
  with OpLogFile show ?thesis using frame_log_file by auto
next
  case (OpLogAndroguard d x r)
  assume "run c s = Some s'"
  with OpLogAndroguard show ?thesis using frame_log_androguard by auto
qed (auto simp: set_url_def add_code_snippet_def log_event_def Let_def log_location_def
      log_exploit_event_def log_warning_def log_href_redirect_def log_certificate_def
      log_virustotal_def log_honeyagent_def log_peepdf_def
      intro!: frame_steps frame_add_behavior_warn frame_log_connection
        frame_log_analysis_module frame_store_content)

lemma handlers_start: "methods_cache s = [] \<Longrightarrow> handlers s name = implementing (modules s) name"
  by (simp add: handlers_def resolve_method_def Let_def scan_modules_implementing)

lemma session_frame: "session s0 s \<Longrightarrow> frame s0 s"
  by (induction rule: session.induct) (auto dest: frame_run intro: frame_trans)

lemma resolve_twice:
  "resolve_method name (snd (resolve_method name s)) = (fst (resolve_method name s), snd (resolve_method name s))"
  by (auto simp: resolve_method_def Let_def map_add_def split: option.splits)

lemma resolve_cached_any_modules:
  "resolve_method name ((snd (resolve_method name s))\<lparr>modules := ms\<rparr>)
     = (fst (resolve_method name s), (snd (resolve_method name s))\<lparr>modules := ms\<rparr>)"
  by (auto simp: resolve_method_def Let_def map_add_def split: option.splits)

section \<open>The redirect loops\<close>

lemma scan_pass_eq: "scan_pass hist final = (if hist = [] then final else hop_url (hd hist))"
  unfolding scan_pass_def
  by (induction hist arbitrary: final) simp_all

lemma final_loop_Some: "final_loop hist (Some u) = Some (Some u)"
  by (subst final_loop.simps) simp

lemma final_loop_oldest:
  assumes "hist \<noteq> []" "hop_url (hd hist) = Some u"
  shows "final_loop hist None = Some (Some u)"
  by (subst final_loop.simps) (simp add: scan_pass_eq assms final_loop_Some)

lemma final_loop_returns:
  assumes "final_loop hist final = Some r"
  shows "\<not> (final = None \<and> (hist = [] \<or> hop_url (hd hist) = None))"
  using assms
proof (induction rule: final_loop.raw_induct [rotated 1, consumes 1])
  case (1 loop hist final r)
  show ?case
  proof
    assume bad: "final = None \<and> (hist = [] \<or> hop_url (hd hist) = None)"
    then have "scan_pass hist final = None"
      by (auto simp: scan_pass_eq)
    with bad 1(2) have "loop hist None = Some r"
      by simp
    from 1(1) [OF this] bad show False
      by simp
  qed
qed

lemma log_redirect_false: "\<not> truth_value r \<Longrightarrow> log_redirect (Some r) s = Some (None, s)"
  by (simp add: log_redirect_def)

lemma final_loop_diverges:
  assumes "hist = [] \<or> hop_url (hd hist) = None"
  shows "final_loop hist None = None"
proof (cases "final_loop hist None")
  case None
  then show ?thesis .
next
  case (Some r)
  from final_loop_returns [OF Some] assms show ?thesis by simp
qed

lemma trace_log_hop: "trace (log_hop s h) = trace s @ hop_events s h"
  by (simp add: log_hop_def Let_def hop_events_def add_behavior_warn_def log_connection_def
      opt_str_def)

lemma hop_events_frame:
  assumes "frame s s'"
  shows "hop_events s' = hop_events s"
proof -
  from assms have "handlers s' = handlers s"
    by (simp add: frame_def)
  then have "calls s' = calls s"
    by (rule calls_handlers)
  then show ?thesis
    by (intro ext) (simp add: hop_events_def)
qed

lemma trace_foldl_log_hop:
  "trace (foldl log_hop s hs) = trace s @ concat (map (hop_events s) hs)"
proof (induction hs arbitrary: s)
  case Nil
  show ?case by simp
next
  case (Cons h hs)
  have "frame s (log_hop s h)"
    by (rule frame_log_hop) simp
  then have "hop_events (log_hop s h) = hop_events s"
    by (rule hop_events_frame)
  with Cons [of "log_hop s h"] show ?case
    by (simp add: trace_log_hop)
qed

lemma log_redirect_final:
  assumes "truth_value r" and "history r \<noteq> []"
    and "final_loop (history r) (url r) = Some final"
  shows "\<exists>s'. log_redirect (Some r) s = Some (final, s')
          \<and> trace s' = trace s @ concat (map (hop_events s) (history r))
                          @ [UrlClassify (opt_str final), FetchCert (opt_str final)]"
  using assms by (simp add: log_redirect_def Let_def trace_foldl_log_hop)

section \<open>Counting events\<close>

lemma count_concat:
  assumes "\<And>x. x \<in> set xs \<Longrightarrow> length (filter P (f x)) = k"
  shows "length (filter P (concat (map f xs))) = length xs * k"
  using assms by (induction xs) simp_all

lemma session_handlers:
  assumes "session s0 s"
  shows "handlers s name = implementing (modules s) name"
proof -
  have "handlers s0 name = implementing (modules s0) name"
    using assms
  proof (induction rule: session.induct)
    case (start s0)
    then show ?case by (rule handlers_start)
  next
    case (step s0 s c s')
    from step.IH show ?case .
  qed
  moreover have "frame s0 s"
    using assms by (rule session_frame)
  ultimately show ?thesis
    by (simp add: frame_def)
qed

lemma session_calls:
  assumes "session s0 s"
  shows "calls s name args
           = map (\<lambda>m. Handler (mname m) name args) (filter (\<lambda>m. name \<in> set (mattrs m)) (modules s))"
  by (simp add: calls_def session_handlers [OF assms] implementing_def comp_def)

lemma calls_no_warning [simp]: "filter is_warning (calls s name args) = []"
  by (simp add: calls_def is_warning_def filter_empty_conv)

lemma calls_no_classify [simp]: "filter is_classify (calls s name args) = []"
  by (simp add: calls_def is_classify_def filter_empty_conv)

lemma calls_no_fetch [simp]: "filter is_fetch (calls s name args) = []"
  by (simp add: calls_def is_fetch_def filter_empty_conv)

lemma calls_no_build [simp]: "filter is_build (calls s name args) = []"
  by (simp add: calls_def is_build_def filter_empty_conv)

lemma session_count_calls:
  assumes "session s0 s"
  shows "length (filter (is_call n) (calls s name args))
           = (if n = name then length (implementing (modules s) name) else 0)"
  by (simp add: session_calls [OF assms] is_call_def implementing_def filter_empty_conv comp_def)

lemma hop_events_warnings: "length (filter is_warning (hop_events s h)) = 1"
  by (simp add: hop_events_def is_warning_def)

lemma hop_events_classify: "length (filter is_classify (hop_events s h)) = 1"
  by (simp add: hop_events_def is_classify_def)

lemma hop_events_fetch: "length (filter is_fetch (hop_events s h)) = 1"
  by (simp add: hop_events_def is_fetch_def)

lemma hop_events_edges:
  assumes "session s0 s"
  shows "length (filter (is_call ''log_connection'') (hop_events s h))
           = length (implementing (modules s) ''log_connection'')"
  by (simp add: hop_events_def session_count_calls [OF assms] is_call_def)

lemma hop_events_warn_calls:
  assumes "session s0 s"
  shows "length (filter (is_call ''add_behavior_warn'') (hop_events s h))
           = length (implementing (modules s) ''add_behavior_warn'')"
  by (simp add: hop_events_def session_count_calls [OF assms] is_call_def)

lemma str_int_301: "str_int 301 = ''301''"
  by (simp add: str_int_def str_nat.simps)

lemma str_int_302: "str_int 302 = ''302''"
  by (simp add: str_int_def str_nat.simps)

section \<open>Facts about stored content\<close>

lemma store_content_disabled: "\<not> file_logging s \<Longrightarrow> store_content d f c s = (Inr None, s)"
  by (simp add: store_content_def)

lemma store_content_exists:
  assumes "file_logging s" and "fs_makedirs (fs s) d = Inl EEXIST"
  shows "store_content d f c s =
           (case fs_write (fs s) (path_join d f) c of
              Inl e \<Rightarrow> (Inl (OSError e), s)
            | Inr f2 \<Rightarrow> (Inr (Some (path_join d f)), s\<lparr>fs := f2\<rparr>))"
  using assms by (simp add: store_content_def Let_def split: sum.splits)

lemma store_content_fault:
  assumes "file_logging s" and "fs_makedirs (fs s) d = Inl e" and "e \<noteq> EEXIST"
  shows "store_content d f c s = (Inl (OSError e), s)"
  using assms by (simp add: store_content_def Let_def)

lemma store_content_made:
  assumes "file_logging s"
    and "fs_makedirs (fs s) d = Inr f1 \<or> fs_makedirs (fs s) d = Inl EEXIST \<and> f1 = fs s"
    and "fs_write f1 (path_join d f) c = Inr f2"
  shows "store_content d f c s = (Inr (Some (path_join d f)), s\<lparr>fs := f2\<rparr>)"
  using assms by (auto simp: store_content_def Let_def)

lemma store_content_returns:
  assumes "file_logging s" and "store_content d f c s = (Inr r, s1)"
  shows "\<exists>f1 f2. (fs_makedirs (fs s) d = Inr f1 \<or> fs_makedirs (fs s) d = Inl EEXIST \<and> f1 = fs s)
           \<and> fs_write f1 (path_join d f) c = Inr f2 \<and> s1 = s\<lparr>fs := f2\<rparr>
           \<and> r = Some (path_join d f)"
  using assms by (auto simp: store_content_def Let_def split: sum.splits if_splits)

lemma fs_write_again:
  assumes "fs_write f1 p c = Inr f2"
  shows "\<exists>f3. fs_write f2 p c2 = Inr f3"
  using assms by (auto simp: fs_write_def split: if_splits)

lemma fs_write_content: "fs_write f1 p c = Inr f2 \<Longrightarrow> map_of (files f2) p = Some c"
  by (auto simp: fs_write_def split: if_splits)

lemma fs_write_dirs: "fs_write f1 p c = Inr f2 \<Longrightarrow> dirs f2 = dirs f1"
  by (auto simp: fs_write_def split: if_splits)

lemma fs_makedirs_new:
  "fs_makedirs f d = Inr f1 \<Longrightarrow> d \<notin> set (dirs f) \<and> d \<in> set (dirs f1)"
  by (auto simp: fs_makedirs_def split: if_splits)

lemma fs_makedirs_after:
  assumes "fs_makedirs f d = Inr f1 \<or> fs_makedirs f d = Inl EEXIST \<and> f1 = f"
    and "fs_write f1 p c = Inr f2"
  shows "fs_makedirs f2 d = Inl EEXIST"
proof -
  from assms(1) have d: "d \<noteq> []" and e: "d \<in> set (dirs f1) \<or> d \<in> fst ` set (files f1)"
    by (auto simp: fs_makedirs_def split: if_splits)
  from assms(2) have f2: "f2 = f1\<lparr>files := (p, c) # filter (\<lambda>e. fst e \<noteq> p) (files f1)\<rparr>"
    by (auto simp: fs_write_def split: if_splits)
  from e have "d \<in> set (dirs f2) \<or> d \<in> fst ` set (files f2)"
    unfolding f2 by (cases "d = p") force+
  with d show ?thesis
    by (simp add: fs_makedirs_def)
qed

lemmas example_store_defs = stored_once_def stored_twice_def logging_off_def example_thug_def
  store_content_def fs_makedirs_def fs_write_def path_join_def Let_def

section \<open>Traces of the file operations\<close>

lemma trace_ThugLogging_log_file:
  "\<exists>rest. trace (snd (ThugLogging_log_file smp data u p s))
            = trace s @ calls s ''log_file'' [PDict smp, u, p]
                @ [VTAnalyze data smp (opt_str (baseDir s))] @ rest
          \<and> filter is_build rest = []"
  by (simp add: ThugLogging_log_file_def Let_def is_build_def split: option.splits)

lemma trace_store_content: "trace (snd (store_content d f c s)) = trace s"
  by (simp add: store_content_def Let_def split: sum.splits)

lemma trace_log_analysis_module:
  "\<exists>rest. trace (snd (log_analysis_module d x r m f s)) = trace s @ rest
          \<and> filter is_build rest = []"
proof (cases "map_of x ''md5''")
  case None
  then show ?thesis
    by (simp add: log_analysis_module_def)
next
  case (Some md5)
  obtain o1 s1 where st: "store_content d (md5 @ ''.'' @ f) r s = (o1, s1)"
    by (cases "store_content d (md5 @ ''.'' @ f) r s")
  have "trace (snd (store_content d (md5 @ ''.'' @ f) r s)) = trace s"
    by (rule trace_store_content)
  with st have t1: "trace s1 = trace s"
    by simp
  show ?thesis
    using Some st t1 by (cases o1) (simp_all add: log_analysis_module_def Let_def)
qed

section \<open>Claims about resolution and dispatch\<close>

text \<open>
  Claim C2. In a session, \<^verbatim>\<open>resolve_method\<close> returns for an event name, at every call,
  the bound operations of the registered modules that implement the name, in the order of
  registration. After a call the list is in the cache: the next call returns it and leaves
  the state as it is, and it does not look at the modules again (it returns the same list
  whatever \<^verbatim>\<open>self.modules\<close> then holds).
\<close>

theorem resolve_method_memoized:
  assumes "session s0 s"
  shows "fst (resolve_method name s) = implementing (modules s0) name
       \<and> resolve_method name (snd (resolve_method name s))
           = (implementing (modules s0) name, snd (resolve_method name s))
       \<and> resolve_method name ((snd (resolve_method name s))\<lparr>modules := ms\<rparr>)
           = (implementing (modules s0) name, (snd (resolve_method name s))\<lparr>modules := ms\<rparr>)"
proof -
  have start: "handlers s0 name = implementing (modules s0) name"
    using assms
  proof (induction rule: session.induct)
    case (start s0)
    then show ?case by (rule handlers_start)
  next
    case (step s0 s c s')
    from step.IH show ?case .
  qed
  have "frame s0 s"
    using assms by (rule session_frame)
  then have "handlers s name = handlers s0 name"
    by (simp add: frame_def)
  with start have first: "fst (resolve_method name s) = implementing (modules s0) name"
    by (simp add: handlers_def)
  show ?thesis
    using first resolve_twice [of name s] resolve_cached_any_modules [where name = name and s = s and ms = ms]
    by simp
qed

theorem resolve_method_memoized_witness:
  "session example_thug (log_connection (PStr ''http://a/'') (PStr ''http://b/'') (PStr ''href'') (PDict []) example_thug)
   \<and> fst (resolve_method ''log_connection''
            (log_connection (PStr ''http://a/'') (PStr ''http://b/'') (PStr ''href'') (PDict []) example_thug))
       = [(''JSON'', ''log_connection''), (''MongoDB'', ''log_connection'')]"
proof -
  let ?s = "log_connection (PStr ''http://a/'') (PStr ''http://b/'') (PStr ''href'') (PDict []) example_thug"
  have "session example_thug example_thug"
    by (rule session.start) (simp add: example_thug_def)
  moreover have "run (OpLogConnection (PStr ''http://a/'') (PStr ''http://b/'') (PStr ''href'') (PDict [])) example_thug = Some ?s"
    by simp
  ultimately have sess: "session example_thug ?s"
    by (rule session.step)
  from resolve_method_memoized [OF sess, of "''log_connection''"] sess show ?thesis
    by (simp add: implementing_def example_thug_def example_modules_def)
qed

text \<open>
  Claim C7. With \<^verbatim>\<open>check=True\<close> a snippet of length below 4 leaves the state as it is:
  no handler is called. With \<^verbatim>\<open>check=False\<close> the snippet, of any length, goes to every
  handler that \<^verbatim>\<open>resolve_method('add_code_snippet')\<close> returns, in that order.
\<close>

theorem add_code_snippet_check:
  "(length snippet < 4 \<longrightarrow> add_code_snippet snippet language relationship method True s = s)
   \<and> trace (add_code_snippet snippet language relationship method False s)
       = trace s @ map (\<lambda>m. Handler (fst m) (snd m) [PStr snippet, language, relationship, method])
                     (fst (resolve_method ''add_code_snippet'' s))"
  by (simp add: add_code_snippet_def check_snippet_def eval_min_length_logging_def calls_def
      handlers_def)

theorem add_code_snippet_check_witness:
  "length ''a=1'' < 4
   \<and> add_code_snippet ''a=1'' (PStr ''Javascript'') (PStr ''Contained_Inside'') (PStr ''Dynamic Analysis'') True example_thug
       = example_thug
   \<and> trace (add_code_snippet ''a=1'' (PStr ''Javascript'') (PStr ''Contained_Inside'') (PStr ''Dynamic Analysis'') False example_thug)
       = [Handler ''JSON'' ''add_code_snippet'' [PStr ''a=1'', PStr ''Javascript'', PStr ''Contained_Inside'', PStr ''Dynamic Analysis''],
          Handler ''MAEC11'' ''add_code_snippet'' [PStr ''a=1'', PStr ''Javascript'', PStr ''Contained_Inside'', PStr ''Dynamic Analysis''],
          Handler ''MongoDB'' ''add_code_snippet'' [PStr ''a=1'', PStr ''Javascript'', PStr ''Contained_Inside'', PStr ''Dynamic Analysis'']]"
  using add_code_snippet_check [of "''a=1''" "PStr ''Javascript''" "PStr ''Contained_Inside''" "PStr ''Dynamic Analysis''" example_thug]
  by (simp add: resolve_method_def Let_def scan_modules_def getattr_def example_thug_def
      example_modules_def)

text \<open>
  Claim C6. When the sample builder returns no sample, \<^verbatim>\<open>log_file\<close> returns
  \<^verbatim>\<open>None\<close> and raises nothing; the call of the builder is its only effect: no handler,
  no scan service, no dynamic-execution service and no classifier is called.
\<close>

theorem log_file_unbuildable:
  assumes "build_sample data u = None"
  shows "log_file build_sample data u params s
           = (Inr None, s\<lparr>trace := trace s @ [BuildSample data u]\<rparr>)"
  using assms by (simp add: log_file_def emit_def)

theorem log_file_unbuildable_witness:
  "(\<lambda>d u. None) (PStr '''') (PStr ''http://a/'') = (None :: sample option)
   \<and> log_file (\<lambda>d u. None) (PStr '''') (PStr ''http://a/'') PNone example_thug
       = (Inr None, example_thug\<lparr>trace := [BuildSample (PStr '''') (PStr ''http://a/'')]\<rparr>)"
  using log_file_unbuildable [of "\<lambda>d u. None" "PStr ''''" "PStr ''http://a/''" PNone example_thug]
  by (simp add: example_thug_def)

section \<open>Claims about redirect chains\<close>

text \<open>
  Claim C3, amended. In a session, for a response with N hops, N at least 1, whose own URL
  is a string \<open>u\<close>: when the response passes the test \<^verbatim>\<open>if not response\<close> (its truth
  value is true), \<^verbatim>\<open>log_redirect\<close> returns \<open>u\<close>. It adds to the trace the events of each
  hop, oldest hop first (the behavior warning, the connection edge from the hop's URL to
  its \<^verbatim>\<open>location\<close> header with method \<^verbatim>\<open>http-redirect\<close>, the classification of the
  hop's URL and the fetch of its certificate), then the classification of \<open>u\<close> and the
  fetch of its certificate. So the warning log gets N lines, every handler of
  \<^verbatim>\<open>add_behavior_warn\<close> and every handler of \<^verbatim>\<open>log_connection\<close> is called N times, and
  there are N + 1 classifications and N + 1 certificate fetches. When the truth value of
  the response is false, \<^verbatim>\<open>log_redirect\<close> returns \<^verbatim>\<open>None\<close> and leaves the state as it is.
\<close>

theorem log_redirect_with_history:
  assumes "session s0 s" and "history r \<noteq> []" and "url r = Some u"
  shows "(truth_value r \<longrightarrow>
           (\<exists>new s'. log_redirect (Some r) s = Some (Some u, s')
              \<and> trace s' = trace s @ new
              \<and> new = concat (map (hop_events s) (history r))
                         @ [UrlClassify (PStr u), FetchCert (PStr u)]
              \<and> length (filter is_warning new) = length (history r)
              \<and> length (filter (is_call ''add_behavior_warn'') new)
                  = length (history r) * length (implementing (modules s) ''add_behavior_warn'')
              \<and> length (filter (is_call ''log_connection'') new)
                  = length (history r) * length (implementing (modules s) ''log_connection'')
              \<and> length (filter is_classify new) = length (history r) + 1
              \<and> length (filter is_fetch new) = length (history r) + 1))
       \<and> (\<not> truth_value r \<longrightarrow> log_redirect (Some r) s = Some (None, s))"
proof (intro conjI impI)
  assume true: "truth_value r"
  let ?hops = "concat (map (hop_events s) (history r))"
  let ?new = "?hops @ [UrlClassify (PStr u), FetchCert (PStr u)]"
  from assms(3) have "final_loop (history r) (url r) = Some (Some u)"
    by (simp add: final_loop_Some)
  from log_redirect_final [OF true assms(2) this, of s]
  obtain s' where run: "log_redirect (Some r) s = Some (Some u, s')"
    and tr: "trace s' = trace s @ ?new"
    by (auto simp: opt_str_def)
  have w: "length (filter is_warning ?hops) = length (history r) * 1"
    by (rule count_concat) (rule hop_events_warnings)
  have b: "length (filter (is_call ''add_behavior_warn'') ?hops)
             = length (history r) * length (implementing (modules s) ''add_behavior_warn'')"
    by (rule count_concat) (rule hop_events_warn_calls [OF assms(1)])
  have e: "length (filter (is_call ''log_connection'') ?hops)
             = length (history r) * length (implementing (modules s) ''log_connection'')"
    by (rule count_concat) (rule hop_events_edges [OF assms(1)])
  have c: "length (filter is_classify ?hops) = length (history r) * 1"
    by (rule count_concat) (rule hop_events_classify)
  have f: "length (filter is_fetch ?hops) = length (history r) * 1"
    by (rule count_concat) (rule hop_events_fetch)
  have "length (filter is_warning ?new) = length (history r)"
    using w by (simp add: is_warning_def)
  moreover have "length (filter (is_call ''add_behavior_warn'') ?new)
                   = length (history r) * length (implementing (modules s) ''add_behavior_warn'')"
    using b by (simp add: is_call_def)
  moreover have "length (filter (is_call ''log_connection'') ?new)
                   = length (history r) * length (implementing (modules s) ''log_connection'')"
    using e by (simp add: is_call_def)
  moreover have "length (filter is_classify ?new) = length (history r) + 1"
    using c by (simp add: is_classify_def is_fetch_def)
  moreover have "length (filter is_fetch ?new) = length (history r) + 1"
    using f by (simp add: is_classify_def is_fetch_def)
  ultimately show "\<exists>new s'. log_redirect (Some r) s = Some (Some u, s')
              \<and> trace s' = trace s @ new
              \<and> new = concat (map (hop_events s) (history r))
                         @ [UrlClassify (PStr u), FetchCert (PStr u)]
              \<and> length (filter is_warning new) = length (history r)
              \<and> length (filter (is_call ''add_behavior_warn'') new)
                  = length (history r) * length (implementing (modules s) ''add_behavior_warn'')
              \<and> length (filter (is_call ''log_connection'') new)
                  = length (history r) * length (implementing (modules s) ''log_connection'')
              \<and> length (filter is_classify new) = length (history r) + 1
              \<and> length (filter is_fetch new) = length (history r) + 1"
    using run tr by blast
next
  assume "\<not> truth_value r"
  then show "log_redirect (Some r) s = Some (None, s)"
    by (rule log_redirect_false)
qed

theorem log_redirect_with_history_witness:
  "session example_thug example_thug
   \<and> history \<lparr>truth_value = True, url = Some ''http://c/'', history = [hop_a, hop_b]\<rparr> \<noteq> []
   \<and> truth_value \<lparr>truth_value = True, url = Some ''http://c/'', history = [hop_a, hop_b]\<rparr>
   \<and> (\<exists>s'. log_redirect
               (Some \<lparr>truth_value = True, url = Some ''http://c/'', history = [hop_a, hop_b]\<rparr>)
               example_thug
               = Some (Some ''http://c/'', s')
          \<and> trace s' =
              [Handler ''JSON'' ''add_behavior_warn''
                 [PStr ''[HTTP Redirection (Status: 301)] Content-Location: http://a/ --> Location: http://b/'',
                  PNone, PStr ''Dynamic Analysis''],
               Handler ''MAEC11'' ''add_behavior_warn''
                 [PStr ''[HTTP Redirection (Status: 301)] Content-Location: http://a/ --> Location: http://b/'',
                  PNone, PStr ''Dynamic Analysis''],
               LogWarning (PStr ''[HTTP Redirection (Status: 301)] Content-Location: http://a/ --> Location: http://b/''),
               Handler ''JSON'' ''log_connection''
                 [PStr ''http://a/'', PStr ''http://b/'', PStr ''http-redirect'', PDict []],
               Handler ''MongoDB'' ''log_connection''
                 [PStr ''http://a/'', PStr ''http://b/'', PStr ''http-redirect'', PDict []],
               UrlClassify (PStr ''http://a/''), FetchCert (PStr ''http://a/''),
               Handler ''JSON'' ''add_behavior_warn''
                 [PStr ''[HTTP Redirection (Status: 302)] Content-Location: http://b/ --> Location: http://c/'',
                  PNone, PStr ''Dynamic Analysis''],
               Handler ''MAEC11'' ''add_behavior_warn''
                 [PStr ''[HTTP Redirection (Status: 302)] Content-Location: http://b/ --> Location: http://c/'',
                  PNone, PStr ''Dynamic Analysis''],
               LogWarning (PStr ''[HTTP Redirection (Status: 302)] Content-Location: http://b/ --> Location: http://c/''),
               Handler ''JSON'' ''log_connection''
                 [PStr ''http://b/'', PStr ''http://c/'', PStr ''http-redirect'', PDict []],
               Handler ''MongoDB'' ''log_connection''
                 [PStr ''http://b/'', PStr ''http://c/'', PStr ''http-redirect'', PDict []],
               UrlClassify (PStr ''http://b/''), FetchCert (PStr ''http://b/''),
               UrlClassify (PStr ''http://c/''), FetchCert (PStr ''http://c/'')]
          \<and> length (filter is_warning (trace s')) = 2
          \<and> length (filter (is_call ''log_connection'') (trace s')) = 2 * 2
          \<and> length (filter is_classify (trace s')) = 3
          \<and> length (filter is_fetch (trace s')) = 3)
   \<and> history \<lparr>truth_value = False, url = Some ''http://b/'', history = [hop_a]\<rparr> \<noteq> []
   \<and> \<not> truth_value \<lparr>truth_value = False, url = Some ''http://b/'', history = [hop_a]\<rparr>
   \<and> log_redirect (Some \<lparr>truth_value = False, url = Some ''http://b/'', history = [hop_a]\<rparr>)
         example_thug = Some (None, example_thug)"
proof -
  let ?r = "\<lparr>truth_value = True, url = Some ''http://c/'', history = [hop_a, hop_b]\<rparr>"
  let ?q = "\<lparr>truth_value = False, url = Some ''http://b/'', history = [hop_a]\<rparr>"
  have sess: "session example_thug example_thug"
    by (rule session.start) (simp add: example_thug_def)
  have hist: "history ?r \<noteq> []" and u: "url ?r = Some ''http://c/''"
    by simp_all
  have hist': "history ?q \<noteq> []" and u': "url ?q = Some ''http://b/''"
    by simp_all
  have ca: "calls example_thug ''add_behavior_warn'' = (\<lambda>args.
              [Handler ''JSON'' ''add_behavior_warn'' args, Handler ''MAEC11'' ''add_behavior_warn'' args])"
    by (rule ext) (simp add: session_calls [OF sess], simp add: example_thug_def example_modules_def)
  have cc: "calls example_thug ''log_connection'' = (\<lambda>args.
              [Handler ''JSON'' ''log_connection'' args, Handler ''MongoDB'' ''log_connection'' args])"
    by (rule ext) (simp add: session_calls [OF sess], simp add: example_thug_def example_modules_def)
  have ma: "implementing (modules example_thug) ''log_connection''
              = [(''JSON'', ''log_connection''), (''MongoDB'', ''log_connection'')]"
    by (simp add: implementing_def example_thug_def example_modules_def)
  have t0: "trace example_thug = []"
    by (simp add: example_thug_def)
  from log_redirect_with_history [OF sess hist u] log_redirect_with_history [OF sess hist' u']
    sess show ?thesis
    by (auto simp: ca cc ma t0 hop_events_def redirect_warning_def hop_a_def hop_b_def opt_str_def
        py_str_def str_int_301 str_int_302 is_warning_def is_call_def is_classify_def is_fetch_def)
qed

text \<open>
  Claim C3 as stated fails: a response with two hops and a URL of its own whose truth value
  is false (a chain of redirects that ends in an error page) returns \<^verbatim>\<open>None\<close> at the test
  \<^verbatim>\<open>if not response\<close>, and nothing is logged, classified or fetched.
\<close>

theorem log_redirect_with_history_counterexample:
  "history \<lparr>truth_value = False, url = Some ''http://c/'', history = [hop_a, hop_b]\<rparr> \<noteq> []
   \<and> url \<lparr>truth_value = False, url = Some ''http://c/'', history = [hop_a, hop_b]\<rparr>
       = Some ''http://c/''
   \<and> log_redirect
         (Some \<lparr>truth_value = False, url = Some ''http://c/'', history = [hop_a, hop_b]\<rparr>)
         example_thug = Some (None, example_thug)
   \<and> trace example_thug = []"
  by (simp add: log_redirect_def example_thug_def)

text \<open>
  Claim C5, amended. For a response without hops \<^verbatim>\<open>log_redirect\<close> returns \<^verbatim>\<open>None\<close>.
  It classifies the response's own URL and fetches its certificate, once, when the
  response passes the test \<^verbatim>\<open>if not response\<close> (its truth value is true) and that URL is
  a non-empty string (the guard \<^verbatim>\<open>if response.url\<close>); when the truth value is false, or
  the URL is \<^verbatim>\<open>None\<close> or empty, it does nothing.
\<close>

theorem log_redirect_no_history:
  assumes "history r = []"
  shows "log_redirect (Some r) s
           = Some (None, if truth_value r \<and> truthy (url r)
                         then s\<lparr>trace := trace s @ [UrlClassify (opt_str (url r)),
                                                     FetchCert (opt_str (url r))]\<rparr>
                         else s)"
  using assms by (simp add: log_redirect_def emit_def)

theorem log_redirect_no_history_witness:
  "history \<lparr>truth_value = True, url = Some ''http://a/'', history = []\<rparr> = []
   \<and> log_redirect (Some \<lparr>truth_value = True, url = Some ''http://a/'', history = []\<rparr>)
         example_thug
       = Some (None, example_thug\<lparr>trace := [UrlClassify (PStr ''http://a/''),
                                               FetchCert (PStr ''http://a/'')]\<rparr>)
   \<and> history \<lparr>truth_value = False, url = Some ''http://a/'', history = []\<rparr> = []
   \<and> log_redirect (Some \<lparr>truth_value = False, url = Some ''http://a/'', history = []\<rparr>)
         example_thug
       = Some (None, example_thug)"
  using log_redirect_no_history
          [of "\<lparr>truth_value = True, url = Some ''http://a/'', history = []\<rparr>" example_thug]
        log_redirect_no_history
          [of "\<lparr>truth_value = False, url = Some ''http://a/'', history = []\<rparr>" example_thug]
  by (simp add: truthy_def opt_str_def example_thug_def)

text \<open>
  Claim C5 as stated fails: a response without hops whose URL is \<^verbatim>\<open>None\<close> leaves the
  state as it is, with no classification and no certificate fetch, although the response
  itself is true.
\<close>

theorem log_redirect_no_history_counterexample:
  "history \<lparr>truth_value = True, url = None, history = []\<rparr> = []
   \<and> log_redirect (Some \<lparr>truth_value = True, url = None, history = []\<rparr>) example_thug
       = Some (None, example_thug)
   \<and> filter is_classify (trace example_thug) = []
   \<and> filter is_fetch (trace example_thug) = []"
  by (simp add: log_redirect_def truthy_def example_thug_def)

text \<open>
  Claim C1 at the failing input: the response is true, has no URL of its own and one hop
  whose URL is \<^verbatim>\<open>None\<close>. Every pass of the inner loop leaves \<^verbatim>\<open>final\<close> at \<^verbatim>\<open>None\<close>, and the
  call never returns.
\<close>

theorem log_redirect_empty_hops_never_returns:
  "log_redirect (Some \<lparr>truth_value = True, url = None, history = [hop_none]\<rparr>) s = None"
proof -
  have "final_loop [hop_none] None = None"
    by (rule final_loop_diverges) (simp add: hop_none_def)
  then show ?thesis
    by (simp add: log_redirect_def)
qed

text \<open>
  Claim C4 at the failing input: the response is true, has no URL of its own and the hops
  \<^verbatim>\<open>http://a/\<close> (oldest) and \<^verbatim>\<open>http://b/\<close> (most recent). The inner loop has no
  \<^verbatim>\<open>break\<close>: it runs over all hops, and the value returned is the URL of the oldest hop.
\<close>

theorem log_redirect_returns_oldest_hop:
  "map_option fst
     (log_redirect (Some \<lparr>truth_value = True, url = None, history = [hop_a, hop_b]\<rparr>) s)
     = Some (Some ''http://a/'')"
proof -
  have "final_loop [hop_a, hop_b] None = Some (Some ''http://a/'')"
    by (rule final_loop_oldest) (simp_all add: hop_a_def)
  then show ?thesis
    by (simp add: log_redirect_def Let_def)
qed

section \<open>Claims about stored content and the analysis modules\<close>

text \<open>
  Claim C8. With file logging on, an \<^verbatim>\<open>OSError\<close> of \<^verbatim>\<open>os.makedirs\<close> with
  \<^verbatim>\<open>errno.EEXIST\<close> is swallowed: the outcome of \<^verbatim>\<open>store_content\<close> is that of the write
  alone. An \<^verbatim>\<open>OSError\<close> with any other \<^verbatim>\<open>errno\<close> leaves the method, with the state as
  it was. And a call that returned can be repeated with the same directory and file name:
  \<^verbatim>\<open>os.makedirs\<close> then raises \<^verbatim>\<open>EEXIST\<close> (with file logging on), and the second call
  returns as well.
\<close>

theorem store_content_directory_exists:
  "(file_logging s \<and> fs_makedirs (fs s) d = Inl EEXIST \<longrightarrow>
      store_content d f c s =
        (case fs_write (fs s) (path_join d f) c of
           Inl e' \<Rightarrow> (Inl (OSError e'), s)
         | Inr f2 \<Rightarrow> (Inr (Some (path_join d f)), s\<lparr>fs := f2\<rparr>)))
   \<and> (file_logging s \<and> fs_makedirs (fs s) d = Inl e \<and> e \<noteq> EEXIST \<longrightarrow>
        store_content d f c s = (Inl (OSError e), s))
   \<and> (store_content d f c s = (Inr r, s1) \<longrightarrow>
        (file_logging s \<longrightarrow> fs_makedirs (fs s1) d = Inl EEXIST)
        \<and> (\<exists>r2 s2. store_content d f c2 s1 = (Inr r2, s2)))"
proof (intro conjI impI)
  assume "file_logging s \<and> fs_makedirs (fs s) d = Inl EEXIST"
  then show "store_content d f c s =
        (case fs_write (fs s) (path_join d f) c of
           Inl e' \<Rightarrow> (Inl (OSError e'), s)
         | Inr f2 \<Rightarrow> (Inr (Some (path_join d f)), s\<lparr>fs := f2\<rparr>))"
    by (simp add: store_content_exists)
next
  assume "file_logging s \<and> fs_makedirs (fs s) d = Inl e \<and> e \<noteq> EEXIST"
  then show "store_content d f c s = (Inl (OSError e), s)"
    by (simp add: store_content_fault)
next
  assume first: "store_content d f c s = (Inr r, s1)" and on: "file_logging s"
  from store_content_returns [OF on first] obtain f1 f2
    where mk: "fs_makedirs (fs s) d = Inr f1 \<or> fs_makedirs (fs s) d = Inl EEXIST \<and> f1 = fs s"
      and wr: "fs_write f1 (path_join d f) c = Inr f2" and s1: "s1 = s\<lparr>fs := f2\<rparr>"
    by blast
  from fs_makedirs_after [OF mk wr] s1 show "fs_makedirs (fs s1) d = Inl EEXIST"
    by simp
next
  assume first: "store_content d f c s = (Inr r, s1)"
  show "\<exists>r2 s2. store_content d f c2 s1 = (Inr r2, s2)"
  proof (cases "file_logging s")
    case False
    with first have "s1 = s"
      by (simp add: store_content_def)
    with False show ?thesis
      by (simp add: store_content_def)
  next
    case True
    from store_content_returns [OF True first] obtain f1 f2
      where mk: "fs_makedirs (fs s) d = Inr f1 \<or> fs_makedirs (fs s) d = Inl EEXIST \<and> f1 = fs s"
        and wr: "fs_write f1 (path_join d f) c = Inr f2" and s1: "s1 = s\<lparr>fs := f2\<rparr>"
      by blast
    from fs_write_again [OF wr] obtain f3 where again: "fs_write f2 (path_join d f) c2 = Inr f3"
      by blast
    have on1: "file_logging s1"
      using True s1 by simp
    have ex1: "fs_makedirs (fs s1) d = Inl EEXIST"
      using fs_makedirs_after [OF mk wr] s1 by simp
    from store_content_exists [OF on1 ex1, of f c2] again s1 show ?thesis
      by simp
  qed
qed

theorem store_content_directory_exists_witness:
  "store_content ''/tmp/thug/analysis'' ''report.json'' ''{}'' example_thug
     = (Inr (Some ''/tmp/thug/analysis/report.json''), stored_once)
   \<and> file_logging example_thug
   \<and> fs_makedirs (fs stored_once) ''/tmp/thug/analysis'' = Inl EEXIST
   \<and> (\<exists>r2 s2. store_content ''/tmp/thug/analysis'' ''report.json'' ''[]'' stored_once = (Inr r2, s2))
   \<and> file_logging stored_once
   \<and> store_content ''/tmp/thug/analysis'' ''report.json'' ''[]'' stored_once
       = (Inr (Some ''/tmp/thug/analysis/report.json''), stored_twice)
   \<and> fs_makedirs (fs example_thug) ''/proc'' = Inl EACCES
   \<and> EACCES \<noteq> EEXIST
   \<and> store_content ''/proc'' ''report.json'' ''{}'' example_thug = (Inl (OSError EACCES), example_thug)"
  using store_content_directory_exists
          [where s = example_thug and d = "''/tmp/thug/analysis''" and e = EEXIST
             and f = "''report.json''" and c = "''{}''"
             and r = "Some ''/tmp/thug/analysis/report.json''" and ?s1.0 = stored_once
             and ?c2.0 = "''[]''"]
        store_content_directory_exists
          [where s = stored_once and d = "''/tmp/thug/analysis''" and e = EEXIST
             and f = "''report.json''" and c = "''[]''"
             and r = "Some ''/tmp/thug/analysis/report.json''" and ?s1.0 = stored_twice
             and ?c2.0 = "''[]''"]
        store_content_directory_exists
          [where s = example_thug and d = "''/proc''" and e = EACCES and f = "''report.json''"
             and c = "''{}''" and r = None and ?s1.0 = example_thug and ?c2.0 = "''{}''"]
  by (simp add: example_store_defs)

text \<open>
  Claim C9, amended. With file logging on, when the creation of the directory succeeds or
  reports that the directory exists, and the write succeeds, \<^verbatim>\<open>store_content\<close> returns
  \<^verbatim>\<open>os.path.join(dirname, filename)\<close>, that file holds the content, and a directory that
  was absent is there. With file logging off it returns \<^verbatim>\<open>None\<close> and leaves the state
  as it is.
\<close>

theorem store_content_enabled:
  "(file_logging s
      \<and> (fs_makedirs (fs s) d = Inr f1 \<or> fs_makedirs (fs s) d = Inl EEXIST \<and> f1 = fs s)
      \<and> fs_write f1 (path_join d f) c = Inr f2
      \<longrightarrow> store_content d f c s = (Inr (Some (path_join d f)), s\<lparr>fs := f2\<rparr>)
          \<and> map_of (files f2) (path_join d f) = Some c
          \<and> (fs_makedirs (fs s) d = Inr f1 \<longrightarrow> d \<notin> set (dirs (fs s)) \<and> d \<in> set (dirs f2)))
   \<and> (\<not> file_logging s \<longrightarrow> store_content d f c s = (Inr None, s))"
proof (intro conjI impI)
  assume a: "file_logging s
      \<and> (fs_makedirs (fs s) d = Inr f1 \<or> fs_makedirs (fs s) d = Inl EEXIST \<and> f1 = fs s)
      \<and> fs_write f1 (path_join d f) c = Inr f2"
  then show "store_content d f c s = (Inr (Some (path_join d f)), s\<lparr>fs := f2\<rparr>)"
    using store_content_made [of s d f1 f c f2] by blast
  from a have wr: "fs_write f1 (path_join d f) c = Inr f2"
    by simp
  from wr show "map_of (files f2) (path_join d f) = Some c"
    by (rule fs_write_content)
  assume mk: "fs_makedirs (fs s) d = Inr f1"
  from fs_makedirs_new [OF mk] fs_write_dirs [OF wr]
  show "d \<notin> set (dirs (fs s))" "d \<in> set (dirs f2)"
    by simp_all
next
  assume "\<not> file_logging s"
  then show "store_content d f c s = (Inr None, s)"
    by (rule store_content_disabled)
qed

theorem store_content_enabled_witness:
  "file_logging example_thug
   \<and> fs_makedirs (fs example_thug) ''/tmp/thug/analysis''
       = Inr \<lparr>dirs = [''/tmp/thug/analysis''], files = [], denied = [''/proc'']\<rparr>
   \<and> fs_write \<lparr>dirs = [''/tmp/thug/analysis''], files = [], denied = [''/proc'']\<rparr>
         (path_join ''/tmp/thug/analysis'' ''report.json'') ''{}'' = Inr (fs stored_once)
   \<and> store_content ''/tmp/thug/analysis'' ''report.json'' ''{}'' example_thug
       = (Inr (Some ''/tmp/thug/analysis/report.json''), stored_once)
   \<and> map_of (files (fs stored_once)) ''/tmp/thug/analysis/report.json'' = Some ''{}''
   \<and> ''/tmp/thug/analysis'' \<notin> set (dirs (fs example_thug))
   \<and> ''/tmp/thug/analysis'' \<in> set (dirs (fs stored_once))
   \<and> \<not> file_logging logging_off
   \<and> store_content ''/tmp/thug/analysis'' ''report.json'' ''{}'' logging_off = (Inr None, logging_off)"
  using store_content_enabled
          [where s = example_thug and d = "''/tmp/thug/analysis''"
             and ?f1.0 = "\<lparr>dirs = [''/tmp/thug/analysis''], files = [], denied = [''/proc'']\<rparr>"
             and f = "''report.json''" and c = "''{}''" and ?f2.0 = "fs stored_once"]
        store_content_enabled
          [where s = logging_off and d = "''/tmp/thug/analysis''" and ?f1.0 = "fs logging_off"
             and f = "''report.json''" and c = "''{}''" and ?f2.0 = "fs logging_off"]
  by (simp add: example_store_defs)

text \<open>
  Claim C9 as stated fails: with file logging off the call returns \<^verbatim>\<open>None\<close>, not a
  path, and neither the directory nor the file is made.
\<close>

theorem store_content_enabled_counterexample:
  "fst (store_content ''/tmp/thug/analysis'' ''report.json'' ''{}'' logging_off) = Inr None
   \<and> fs (snd (store_content ''/tmp/thug/analysis'' ''report.json'' ''{}'' logging_off))
       = \<lparr>dirs = [], files = [], denied = [''/proc'']\<rparr>"
  by (simp add: example_store_defs)

text \<open>
  Claim C10. \<^verbatim>\<open>log_androguard\<close> leaves the caller's sample without the key \<^verbatim>\<open>raw\<close>,
  whatever the outcome of the call, and with its other keys as they were. The value taken
  (\<^verbatim>\<open>None\<close> when the key was absent) is the data of the re-logging, which starts with the
  \<^verbatim>\<open>log_file\<close> handlers and the scan service on the sample without \<^verbatim>\<open>raw\<close>; the sample
  builder is not called anywhere in the call.
\<close>

theorem log_androguard_pops_raw:
  "\<exists>r smp1 s' rest.
      log_androguard dirname smp report s = (r, smp1, s')
      \<and> smp1 = filter (\<lambda>e. fst e \<noteq> ''raw'') smp
      \<and> map_of smp1 = (map_of smp)(''raw'' := None)
      \<and> trace s' = trace s @ calls s ''log_file'' [PDict smp1, PNone, PNone]
                      @ [VTAnalyze (opt_str (map_of smp ''raw'')) smp1 (opt_str (baseDir s))] @ rest
      \<and> filter is_build rest = []"
proof -
  let ?smp1 = "filter (\<lambda>e. fst e \<noteq> ''raw'') smp"
  let ?raw = "opt_str (map_of smp ''raw'')"
  have pop: "dict_pop ''raw'' smp = (map_of smp ''raw'', ?smp1)"
    by (simp add: dict_pop_def)
  have gone: "map_of ?smp1 = (map_of smp)(''raw'' := None)"
    by (induction smp) (auto simp: fun_upd_twist)
  obtain o1 s1 where l: "ThugLogging_log_file ?smp1 ?raw PNone PNone s = (o1, s1)"
    by (cases "ThugLogging_log_file ?smp1 ?raw PNone PNone s")
  from trace_ThugLogging_log_file [of ?smp1 ?raw PNone PNone s] l
  obtain rest1 where t1: "trace s1 = trace s @ calls s ''log_file'' [PDict ?smp1, PNone, PNone]
                            @ [VTAnalyze ?raw ?smp1 (opt_str (baseDir s))] @ rest1"
    and b1: "filter is_build rest1 = []"
    by auto
  show ?thesis
  proof (cases o1)
    case (Inl e)
    with pop l have "log_androguard dirname smp report s = (Inl e, ?smp1, s1)"
      by (simp add: log_androguard_def)
    with gone t1 b1 show ?thesis
      by blast
  next
    case (Inr v)
    obtain o2 s2 where a: "log_analysis_module dirname ?smp1 report ''androguard'' ''txt'' s1 = (o2, s2)"
      by (cases "log_analysis_module dirname ?smp1 report ''androguard'' ''txt'' s1")
    from trace_log_analysis_module [of dirname ?smp1 report "''androguard''" "''txt''" s1] a
    obtain rest2 where t2: "trace s2 = trace s1 @ rest2" and b2: "filter is_build rest2 = []"
      by auto
    from Inr pop l a have run: "log_androguard dirname smp report s = (o2, ?smp1, s2)"
      by (simp add: log_androguard_def)
    have t: "trace s2 = trace s @ calls s ''log_file'' [PDict ?smp1, PNone, PNone]
                          @ [VTAnalyze ?raw ?smp1 (opt_str (baseDir s))] @ (rest1 @ rest2)"
      using t1 t2 by simp
    have b: "filter is_build (rest1 @ rest2) = []"
      using b1 b2 by simp
    from run gone t b show ?thesis
      by blast
  qed
qed

theorem log_androguard_pops_raw_witness:
  "\<exists>r s' rest.
      log_androguard ''/tmp/thug/analysis'' example_sample ''<apk/>'' example_thug
        = (r, [(''type'', ''APK''), (''md5'', ''0f343b0931126a20f133d67c2b018a3b'')], s')
      \<and> trace s'
          = [Handler ''JSON'' ''log_file''
               [PDict [(''type'', ''APK''), (''md5'', ''0f343b0931126a20f133d67c2b018a3b'')],
                PNone, PNone],
             VTAnalyze (PStr ''PK'')
               [(''type'', ''APK''), (''md5'', ''0f343b0931126a20f133d67c2b018a3b'')]
               (PStr ''/tmp/thug'')] @ rest
      \<and> filter is_build rest = []"
proof -
  have c: "calls example_thug ''log_file'' = (\<lambda>args. [Handler ''JSON'' ''log_file'' args])"
    by (rule ext)
      (simp add: calls_def handlers_def resolve_method_def Let_def scan_modules_def getattr_def
        example_thug_def example_modules_def)
  have t0: "trace example_thug = []" and b0: "baseDir example_thug = Some ''/tmp/thug''"
    by (simp_all add: example_thug_def)
  from log_androguard_pops_raw [of "''/tmp/thug/analysis''" example_sample "''<apk/>''" example_thug]
  show ?thesis
    by (simp add: c t0 b0 example_sample_def opt_str_def)
qed

end
